theory Spec2Isabelle
  imports Main "HOL-Library.AList"
begin

section \<open>Data model\<close>

text \<open>
  Identifiers are Go strings: \<^verbatim>\<open>image.ID\<close> and \<^verbatim>\<open>layer.DiffID\<close> are digest
  strings. A \<^verbatim>\<open>time.Time\<close> is modelled by the instant it denotes (an integer number
  of nanoseconds), which is all that \<^verbatim>\<open>Before\<close> compares.
\<close>

type_synonym image_id = string
type_synonym diff_id = string
type_synonym time = int

text \<open>
  \<^verbatim>\<open>digest.DigestSha256EmptyTar\<close> is a constant of an imported package: the
  digest of the empty tar archive.
\<close>

definition DigestSha256EmptyTar :: diff_id where
  "DigestSha256EmptyTar =
     ''sha256:a3ed95caeb02ffe68cdd9fd84406680ae93d633cb16422d00e8a7c22955b46d4''"

text \<open>One entry of \<^verbatim>\<open>image.History\<close>.\<close>

record history_entry =
  h_Created :: time
  CreatedBy :: string
  EmptyLayer :: bool

text \<open>
  \<^verbatim>\<open>image.Image\<close>, with the fields the daemon code reads. \<^verbatim>\<open>ID()\<close> returns the
  stored content address (\<open>computedID\<close>); \<open>DiffIDs\<close> is \<^verbatim>\<open>RootFS.DiffIDs\<close>.
  The build configuration is a type parameter: its equality is decided by
  \<^verbatim>\<open>runconfig.Compare\<close>, a collaborator.
\<close>

record 'c image =
  computedID :: image_id
  Parent :: image_id
  Created :: time
  ContainerConfig :: 'c
  History :: "history_entry list"
  DiffIDs :: "diff_id list"

text \<open>\<^verbatim>\<open>historyWithSourceT\<close>, field by field.\<close>

record historyWithSourceT =
  sourceLayerID :: diff_id
  cmd :: string
  resultingLayerID :: diff_id
  createdAt :: time

subsection \<open>Failures\<close>

text \<open>
  A Go function of this package ends in one of four ways: it returns a value, it returns
  an \<^verbatim>\<open>error\<close> value, the runtime panics, or (for the unfinished
  \<^verbatim>\<open>GetCachedImageOnBuild\<close>) control reaches the closing brace of a function with
  results without any \<^verbatim>\<open>return\<close> statement. The last three are the \<open>fault\<close>s.

  The runtime panics that this code can raise are an index out of range (carrying, as the
  Go message does, the index and the length), a slice bound out of range, and an
  assignment to an entry of a nil map.
\<close>

datatype panic =
    IndexOutOfRange int nat
  | SliceBoundsOutOfRange nat nat
  | NilMapAssignment

text \<open>
  The \<^verbatim>\<open>error\<close> values: \<^verbatim>\<open>ErrImageDoesNotExist{RefOrID}\<close>, the
  \<^verbatim>\<open>fmt.Errorf("unable to find image %q", id)\<close> of \<^verbatim>\<open>getMatch\<close>, and whatever
  a collaborator (image store, reference store, reference parser) returns.
\<close>

datatype error =
    ErrImageDoesNotExist string
  | ErrUnableToFindImage image_id
  | CollaboratorError string

datatype fault =
    Panic panic
  | Error error
  | MissingReturn

definition is_error_return :: "fault + 'a \<Rightarrow> bool" where
  "is_error_return r = (case r of Inl (Error e) \<Rightarrow> True | _ \<Rightarrow> False)"

text \<open>Go's \<^verbatim>\<open>xs[i]\<close> on a slice: a panic outside \<open>0 \<le> i < len(xs)\<close>.\<close>

definition index :: "'a list \<Rightarrow> int \<Rightarrow> fault + 'a" where
  "index xs i =
     (if 0 \<le> i \<and> i < int (length xs) then Inr (xs ! nat i)
      else Inl (Panic (IndexOutOfRange i (length xs))))"

text \<open>
  Go's \<^verbatim>\<open>xs[0:n]\<close> on a slice: a panic when \<open>n\<close> exceeds the capacity, which is
  taken to be the length here.
\<close>

definition slice0 :: "'a list \<Rightarrow> nat \<Rightarrow> fault + 'a list" where
  "slice0 xs n =
     (if n \<le> length xs then Inr (take n xs)
      else Inl (Panic (SliceBoundsOutOfRange n (length xs))))"

section \<open>makeHistoryWithSource\<close>

text \<open>
  The two places of the loop body that read a layer ID:
  \<^verbatim>\<open>if layerIndex == -1 { ... = digest.DigestSha256EmptyTar } else { ... = image.RootFS.DiffIDs[layerIndex] }\<close>.
\<close>

definition layerAt :: "diff_id list \<Rightarrow> int \<Rightarrow> fault + diff_id" where
  "layerAt ds layerIndex =
     (if layerIndex = - 1 then Inr DigestSha256EmptyTar else index ds layerIndex)"

text \<open>
  The loop \<^verbatim>\<open>for i, h := range image.History\<close>, with \<open>layerIndex\<close> threaded
  through. The source fills element \<open>i\<close> of a slice allocated with
  \<open>len(image.History)\<close> elements; the model builds the same slice front to back.
\<close>

fun makeHistoryLoop ::
  "diff_id list \<Rightarrow> int \<Rightarrow> history_entry list \<Rightarrow> fault + historyWithSourceT list" where
  "makeHistoryLoop ds layerIndex [] = Inr []"
| "makeHistoryLoop ds layerIndex (h # hs) =
     (case layerAt ds layerIndex of
        Inl f \<Rightarrow> Inl f
      | Inr src \<Rightarrow>
          (let layerIndex' = (if \<not> EmptyLayer h then layerIndex + 1 else layerIndex) in
           case layerAt ds layerIndex' of
             Inl f \<Rightarrow> Inl f
           | Inr res \<Rightarrow>
               (case makeHistoryLoop ds layerIndex' hs of
                  Inl f \<Rightarrow> Inl f
                | Inr rest \<Rightarrow>
                    Inr (\<lparr>sourceLayerID = src, cmd = CreatedBy h,
                          resultingLayerID = res, createdAt = h_Created h\<rparr> # rest))))"

definition makeHistoryWithSource :: "'c image \<Rightarrow> fault + historyWithSourceT list" where
  "makeHistoryWithSource img = makeHistoryLoop (DiffIDs img) (- 1) (History img)"

text \<open>The number of history entries that produce a layer.\<close>

definition producing :: "history_entry list \<Rightarrow> nat" where
  "producing hs = length (filter (\<lambda>h. \<not> EmptyLayer h) hs)"

section \<open>The daemon and its collaborators\<close>

text \<open>
  A parsed reference: a name, possibly with a tag (\<^verbatim>\<open>reference.NamedTagged\<close>).
\<close>

datatype reference = Named string | NamedTagged string string

fun ref_Name :: "reference \<Rightarrow> string" where
  "ref_Name (Named n) = n"
| "ref_Name (NamedTagged n t) = n"

text \<open>
  The part of \<^verbatim>\<open>Daemon\<close> that this file uses. The image store, the reference store,
  the reference parser and the configuration comparator are collaborators outside the
  package, so they are fields holding their behaviour. \<open>imageStore_Map\<close> is the snapshot
  \<^verbatim>\<open>imageStore.Map()\<close> listed in the order in which one \<^verbatim>\<open>range\<close> over it
  visits the entries; Go leaves that order unspecified, so two runs over the same map are
  two lists with the same entries.
\<close>

record 'c Daemon =
  imageStore_Get :: "image_id \<Rightarrow> error + 'c image"
  imageStore_Search :: "string \<Rightarrow> error + image_id"
  imageStore_Children :: "image_id \<Rightarrow> image_id list"
  imageStore_Map :: "(image_id \<times> 'c image) list"
  referenceStore_Get :: "reference \<Rightarrow> error + image_id"
  referenceStore_References :: "image_id \<Rightarrow> reference list"
  ParseIDOrReference :: "string \<Rightarrow> error + (string \<times> reference)"
  Compare :: "'c \<Rightarrow> 'c \<Rightarrow> bool"

subsection \<open>GetImageID, GetImage, GetImageOnBuild\<close>

text \<open>
  \<^verbatim>\<open>for _, namedRef := range daemon.referenceStore.References(id)\<close>: whether the
  loop reaches its \<^verbatim>\<open>return id, nil\<close>.
\<close>

fun referencesLoop :: "reference list \<Rightarrow> string \<Rightarrow> bool" where
  "referencesLoop [] name = False"
| "referencesLoop (namedRef # rest) name =
     (if ref_Name namedRef = name then True else referencesLoop rest name)"

text \<open>The \<^verbatim>\<open>if tagged, ok := ref.(reference.NamedTagged); ok\<close> block.\<close>

definition taggedSearch :: "'c Daemon \<Rightarrow> reference \<Rightarrow> image_id option" where
  "taggedSearch d ref =
     (case ref of
        Named n \<Rightarrow> None
      | NamedTagged n tag \<Rightarrow>
          (case imageStore_Search d tag of
             Inl e \<Rightarrow> None
           | Inr iid \<Rightarrow>
               if referencesLoop (referenceStore_References d iid) (ref_Name ref)
               then Some iid else None))"

definition GetImageID :: "'c Daemon \<Rightarrow> string \<Rightarrow> fault + image_id" where
  "GetImageID d refOrID =
     (case ParseIDOrReference d refOrID of
        Inl e \<Rightarrow> Inl (Error e)
      | Inr (iid, ref) \<Rightarrow>
          if iid \<noteq> [] then
            (case imageStore_Get d iid of
               Inl e \<Rightarrow> Inl (Error (ErrImageDoesNotExist refOrID))
             | Inr img \<Rightarrow> Inr iid)
          else
            (case referenceStore_Get d ref of
               Inr iid' \<Rightarrow> Inr iid'
             | Inl e \<Rightarrow>
                 (case taggedSearch d ref of
                    Some iid' \<Rightarrow> Inr iid'
                  | None \<Rightarrow>
                      (case imageStore_Search d refOrID of
                         Inr iid' \<Rightarrow> Inr iid'
                       | Inl e' \<Rightarrow> Inl (Error (ErrImageDoesNotExist refOrID))))))"

definition GetImage :: "'c Daemon \<Rightarrow> string \<Rightarrow> fault + 'c image" where
  "GetImage d refOrID =
     (case GetImageID d refOrID of
        Inl f \<Rightarrow> Inl f
      | Inr imgID \<Rightarrow>
          (case imageStore_Get d imgID of
             Inl e \<Rightarrow> Inl (Error e)
           | Inr img \<Rightarrow> Inr img))"

definition GetImageOnBuild :: "'c Daemon \<Rightarrow> string \<Rightarrow> fault + 'c image" where
  "GetImageOnBuild d name = GetImage d name"

subsection \<open>GetCachedImage\<close>

text \<open>
  The closure \<^verbatim>\<open>getMatch\<close>: the loop over \<open>siblings\<close> with the variable
  \<open>match\<close> threaded through (\<open>None\<close> is the nil pointer).
\<close>

fun getMatch ::
  "'c Daemon \<Rightarrow> 'c \<Rightarrow> 'c image option \<Rightarrow> image_id list \<Rightarrow> fault + 'c image option" where
  "getMatch d config match [] = Inr match"
| "getMatch d config match (iid # siblings) =
     (case imageStore_Get d iid of
        Inl e \<Rightarrow> Inl (Error (ErrUnableToFindImage iid))
      | Inr img \<Rightarrow>
          if Compare d (ContainerConfig img) config then
            (case match of
               None \<Rightarrow> getMatch d config (Some img) siblings
             | Some m \<Rightarrow>
                 if Created m < Created img then getMatch d config (Some img) siblings
                 else getMatch d config match siblings)
          else getMatch d config match siblings)"

text \<open>
  The list \<open>siblings\<close> that \<^verbatim>\<open>GetCachedImage\<close> hands to \<^verbatim>\<open>getMatch\<close>: for
  \<^verbatim>\<open>FROM scratch\<close> the IDs of the snapshot whose image has the empty parent, in the
  order the \<^verbatim>\<open>range\<close> visits them; otherwise \<^verbatim>\<open>imageStore.Children(imgID)\<close>.
\<close>

definition siblingsOf :: "'c Daemon \<Rightarrow> image_id \<Rightarrow> image_id list" where
  "siblingsOf d imgID =
     (if imgID = [] then map fst (filter (\<lambda>(iid, img). Parent img = imgID) (imageStore_Map d))
      else imageStore_Children d imgID)"

definition GetCachedImage :: "'c Daemon \<Rightarrow> image_id \<Rightarrow> 'c \<Rightarrow> fault + 'c image option" where
  "GetCachedImage d imgID config = getMatch d config None (siblingsOf d imgID)"

text \<open>
  For stating what \<^verbatim>\<open>GetCachedImage\<close> selects: the children whose configuration
  the comparator accepts, in the order of enumeration.
\<close>

definition lookups :: "'c Daemon \<Rightarrow> image_id list \<Rightarrow> 'c image list" where
  "lookups d ids =
     concat (map (\<lambda>iid. case imageStore_Get d iid of Inl e \<Rightarrow> [] | Inr img \<Rightarrow> [img]) ids)"

definition candidates :: "'c Daemon \<Rightarrow> image_id \<Rightarrow> 'c \<Rightarrow> 'c image list" where
  "candidates d imgID config =
     filter (\<lambda>img. Compare d (ContainerConfig img) config) (lookups d (siblingsOf d imgID))"

fun allFound :: "'c Daemon \<Rightarrow> image_id list \<Rightarrow> bool" where
  "allFound d [] = True"
| "allFound d (iid # ids) =
     (case imageStore_Get d iid of Inl e \<Rightarrow> False | Inr img \<Rightarrow> allFound d ids)"

section \<open>The build cache\<close>

text \<open>
  \<^verbatim>\<open>daemonImageCacheForBuild\<close>. A Go map is an association list here, because
  \<^verbatim>\<open>GetCachedImageOnBuild\<close> ranges over one; \<open>None\<close> is the nil map, which can be
  read (every key is absent) and not assigned to. The source declares the values of
  \<open>cacheFromImageHistories\<close> as \<^verbatim>\<open>historyWithSourceT\<close> and then stores and
  measures slices of them; the model takes the slices.
\<close>

record 'c daemonImageCacheForBuild =
  cacheFromImages :: "(string \<times> 'c image) list option"
  cacheFromImageHistories :: "(string \<times> historyWithSourceT list) list option"
  daemon :: "'c Daemon"

text \<open>\<^verbatim>\<open>m[k] = v\<close> on a Go map.\<close>

definition mapassign :: "('k \<times> 'v) list option \<Rightarrow> 'k \<Rightarrow> 'v \<Rightarrow> fault + ('k \<times> 'v) list option" where
  "mapassign m k v =
     (case m of
        None \<Rightarrow> Inl (Panic NilMapAssignment)
      | Some al \<Rightarrow> Inr (Some (AList.update k v al)))"

text \<open>\<^verbatim>\<open>len(m[k])\<close> for a Go map of slices: an absent key reads as the nil slice.\<close>

definition maplen :: "('k \<times> 'v list) list option \<Rightarrow> 'k \<Rightarrow> nat" where
  "maplen m k =
     (case m of
        None \<Rightarrow> 0
      | Some al \<Rightarrow> (case map_of al k of None \<Rightarrow> 0 | Some xs \<Rightarrow> length xs))"

subsection \<open>MakeImageCacheForBuild\<close>

text \<open>
  The loop \<^verbatim>\<open>for _, cacheFromImageName := range cacheFrom\<close>. A name that does not
  resolve is skipped (\<^verbatim>\<open>continue\<close>). For one that resolves, the two assignments run
  in order; in the second, the call on the right is evaluated before the map is written.
\<close>

fun cacheFromLoop ::
  "'c daemonImageCacheForBuild \<Rightarrow> string list \<Rightarrow> fault + 'c daemonImageCacheForBuild" where
  "cacheFromLoop cache [] = Inr cache"
| "cacheFromLoop cache (cacheFromImageName # rest) =
     (case GetImage (daemon cache) cacheFromImageName of
        Inl f \<Rightarrow> cacheFromLoop cache rest
      | Inr cacheFromImage \<Rightarrow>
          (case mapassign (cacheFromImages cache) cacheFromImageName cacheFromImage of
             Inl f \<Rightarrow> Inl f
           | Inr images' \<Rightarrow>
               (case makeHistoryWithSource cacheFromImage of
                  Inl f \<Rightarrow> Inl f
                | Inr hist \<Rightarrow>
                    (case mapassign (cacheFromImageHistories cache) cacheFromImageName hist of
                       Inl f \<Rightarrow> Inl f
                     | Inr histories' \<Rightarrow>
                         cacheFromLoop
                           (cache\<lparr>cacheFromImages := images',
                                  cacheFromImageHistories := histories'\<rparr>) rest))))"

text \<open>
  The composite literal \<^verbatim>\<open>&daemonImageCacheForBuild{daemon: daemon}\<close> leaves both
  maps at their zero value, nil.
\<close>

definition MakeImageCacheForBuild ::
  "'c Daemon \<Rightarrow> string list \<Rightarrow> fault + 'c daemonImageCacheForBuild" where
  "MakeImageCacheForBuild d cacheFrom =
     cacheFromLoop \<lparr>cacheFromImages = None, cacheFromImageHistories = None, daemon = d\<rparr> cacheFrom"

subsection \<open>cacheSearchCoroutine\<close>

text \<open>
  The types of the request and of the response are declared outside the two files; their
  fields are the ones the coroutine reads and writes. A field left out of a composite
  literal has its zero value: the empty string, the zero time.
\<close>

record cacheRequest =
  nextCmd :: string
  prevLayerIDs :: "diff_id list"

record nextCachedLayerResponse =
  nextLayerID :: diff_id
  resp_createdAt :: time
  cachedFrom :: string

definition zeroTime :: time where
  "zeroTime = 0"

text \<open>
  The comparison loop
  \<^verbatim>\<open>for i := 0; i <= len(prevStepCachedLayers); i++\<close>, whose body reads
  \<^verbatim>\<open>prevStepCachedLayers[i]\<close> and then \<^verbatim>\<open>req.prevLayerIDs[i]\<close>. It ends with
  \<open>Inr False\<close> at the \<^verbatim>\<open>break\<close>, with \<open>Inr True\<close> when the loop condition
  fails, and with the panic of an index expression.
\<close>

function matchLoop :: "diff_id list \<Rightarrow> diff_id list \<Rightarrow> nat \<Rightarrow> fault + bool" where
  "matchLoop prev req i =
     (if i \<le> length prev then
        (case index prev (int i) of
           Inl f \<Rightarrow> Inl f
         | Inr a \<Rightarrow>
             (case index req (int i) of
                Inl f \<Rightarrow> Inl f
              | Inr b \<Rightarrow> if a \<noteq> b then Inr False else matchLoop prev req (i + 1)))
      else Inr True)"
  by pat_completeness auto
termination
  by (relation "measure (\<lambda>(prev, req, i). Suc (length prev) - i)") auto

text \<open>The value of \<open>matchesLayerIDs\<close> after the \<^verbatim>\<open>if ... else\<close> around that loop.\<close>

definition matchesLayerIDs :: "diff_id list \<Rightarrow> diff_id list \<Rightarrow> fault + bool" where
  "matchesLayerIDs prev req =
     (if length prev = length req then matchLoop prev req 0 else Inr False)"

text \<open>
  The loop \<^verbatim>\<open>for _, h := range historyWithSource\<close>, one iteration per request. The
  requests are the values that \<^verbatim>\<open>reqChan\<close> delivers, in order, and the channel is
  closed after the last; the result is the list of responses sent on \<^verbatim>\<open>resChan\<close>
  and how the goroutine ended: \<open>None\<close> when it returned, the fault when it panicked. A
  request that arrives after the goroutine has ended gets no response.
\<close>

fun searchLoop ::
  "diff_id list \<Rightarrow> string \<Rightarrow> historyWithSourceT list \<Rightarrow> diff_id list \<Rightarrow> cacheRequest list \<Rightarrow>
   nextCachedLayerResponse list \<times> fault option" where
  "searchLoop ds name [] prevStepCachedLayers reqs = ([], None)"
| "searchLoop ds name (h # hs) prevStepCachedLayers reqs =
     (case (if sourceLayerID h \<noteq> DigestSha256EmptyTar
            then slice0 ds (length prevStepCachedLayers)
            else Inr prevStepCachedLayers) of
        Inl f \<Rightarrow> ([], Some f)
      | Inr prev' \<Rightarrow>
          (case reqs of
             [] \<Rightarrow> ([], None)
           | req # reqs' \<Rightarrow>
               (case matchesLayerIDs prev' (prevLayerIDs req) of
                  Inl f \<Rightarrow> ([], Some f)
                | Inr matches \<Rightarrow>
                    (case searchLoop ds name hs prev' reqs' of
                       (rs, e) \<Rightarrow>
                         ((if nextCmd req = cmd h \<and> matches
                           then \<lparr>nextLayerID = resultingLayerID h,
                                 resp_createdAt = createdAt h,
                                 cachedFrom = name\<rparr>
                           else \<lparr>nextLayerID = [],
                                 resp_createdAt = zeroTime,
                                 cachedFrom = []\<rparr>) # rs, e)))))"

definition cacheSearchCoroutine ::
  "'c image \<Rightarrow> string \<Rightarrow> cacheRequest list \<Rightarrow> nextCachedLayerResponse list \<times> fault option" where
  "cacheSearchCoroutine cacheFromImage cacheFromImageName reqs =
     (case makeHistoryWithSource cacheFromImage of
        Inl f \<Rightarrow> ([], Some f)
      | Inr historyWithSource \<Rightarrow>
          searchLoop (DiffIDs cacheFromImage) cacheFromImageName historyWithSource [] reqs)"

subsection \<open>GetCachedImageOnBuild\<close>

text \<open>
  The loop \<^verbatim>\<open>for cacheFromName, cacheFromImage := range cache.cacheFromImages\<close>.
  Its body is one \<^verbatim>\<open>if\<close> whose branch is \<^verbatim>\<open>continue\<close>; \<open>matches\<close>, a slice
  of the empty struct, is never appended to.
\<close>

fun cacheFromRange ::
  "(string \<times> historyWithSourceT list) list option \<Rightarrow> nat \<Rightarrow> (string \<times> 'c image) list \<Rightarrow>
   unit list \<Rightarrow> unit list" where
  "cacheFromRange histories n [] matches = matches"
| "cacheFromRange histories n ((cacheFromName, cacheFromImage) # rest) matches =
     (if maplen histories cacheFromName \<le> n then cacheFromRange histories n rest matches
      else cacheFromRange histories n rest matches)"

text \<open>
  The function as far as the source goes. After the loop the body ends without a
  \<^verbatim>\<open>return\<close>; that path is the fault \<open>MissingReturn\<close>.
\<close>

definition GetCachedImageOnBuild ::
  "'c daemonImageCacheForBuild \<Rightarrow> string \<Rightarrow> 'c \<Rightarrow> fault + string" where
  "GetCachedImageOnBuild cache imgID cfg =
     (case GetCachedImage (daemon cache) imgID cfg of
        Inl f \<Rightarrow> Inl f
      | Inr (Some cachedImage) \<Rightarrow> Inr (computedID cachedImage)
      | Inr None \<Rightarrow>
          (case GetImage (daemon cache) imgID of
             Inl f \<Rightarrow> Inl f
           | Inr parentImage \<Rightarrow>
               (case makeHistoryWithSource parentImage of
                  Inl f \<Rightarrow> Inl f
                | Inr parentImageHistory \<Rightarrow>
                    (case cacheFromRange (cacheFromImageHistories cache)
                            (length parentImageHistory)
                            (case cacheFromImages cache of None \<Rightarrow> [] | Some al \<Rightarrow> al) [] of
                       matches \<Rightarrow> Inl MissingReturn))))"

section \<open>Concrete stores and images\<close>

text \<open>
  Small inputs on which the functions above are evaluated. \<open>storeGet\<close> is an image
  store backed by a list of entries; \<open>parseAsID\<close> is a reference parser that rejects
  the empty string, as \<^verbatim>\<open>reference.ParseIDOrReference\<close> does, and reads any other
  string as an image ID; the comparator of \<open>fixtureDaemon\<close> is equality.
\<close>

definition storeGet :: "(image_id \<times> 'c image) list \<Rightarrow> image_id \<Rightarrow> error + 'c image" where
  "storeGet entries i =
     (case map_of entries i of
        None \<Rightarrow> Inl (CollaboratorError ''image not found'')
      | Some img \<Rightarrow> Inr img)"

definition parseAsID :: "string \<Rightarrow> error + (string \<times> reference)" where
  "parseAsID s =
     (if s = [] then Inl (CollaboratorError ''invalid reference format'')
      else Inr (s, Named s))"

definition fixtureDaemon ::
  "(image_id \<times> string image) list \<Rightarrow> (image_id \<Rightarrow> image_id list) \<Rightarrow> string Daemon" where
  "fixtureDaemon entries children =
     \<lparr>imageStore_Get = storeGet entries,
      imageStore_Search = (\<lambda>s. Inl (CollaboratorError ''no match'')),
      imageStore_Children = children,
      imageStore_Map = entries,
      referenceStore_Get = (\<lambda>r. Inl (CollaboratorError ''no such reference'')),
      referenceStore_References = (\<lambda>i. []),
      ParseIDOrReference = parseAsID,
      Compare = (\<lambda>a b. a = b)\<rparr>"

definition childOf :: "image_id \<Rightarrow> image_id \<Rightarrow> time \<Rightarrow> string image" where
  "childOf i p t =
     \<lparr>computedID = i, Parent = p, Created = t, ContainerConfig = ''cfg'',
      History = [], DiffIDs = []\<rparr>"

definition twoChildren :: "string Daemon" where
  "twoChildren =
     fixtureDaemon [(''p'', childOf ''p'' [] 0), (''a'', childOf ''a'' ''p'' 1),
                    (''b'', childOf ''b'' ''p'' 2)]
       (\<lambda>i. if i = ''p'' then [''a'', ''b''] else [])"

definition twoStepImage :: "string image" where
  "twoStepImage =
     \<lparr>computedID = ''I'', Parent = [], Created = 2, ContainerConfig = ''B'',
      History = [\<lparr>h_Created = 1, CreatedBy = ''A'', EmptyLayer = False\<rparr>,
                 \<lparr>h_Created = 2, CreatedBy = ''B'', EmptyLayer = False\<rparr>],
      DiffIDs = [''L1'', ''L2'']\<rparr>"

definition pulledOnly :: "string Daemon" where
  "pulledOnly = fixtureDaemon [(''I'', twoStepImage)] (\<lambda>i. [])"

definition exampleHistory :: "history_entry list" where
  "exampleHistory =
     [\<lparr>h_Created = 1, CreatedBy = ''A'', EmptyLayer = True\<rparr>,
      \<lparr>h_Created = 2, CreatedBy = ''B'', EmptyLayer = False\<rparr>]"

definition exampleImage :: "string image" where
  "exampleImage =
     \<lparr>computedID = ''I'', Parent = [], Created = 2, ContainerConfig = ''B'',
      History = exampleHistory, DiffIDs = [''L1'']\<rparr>"

definition corruptImage :: "string image" where
  "corruptImage =
     \<lparr>computedID = ''C'', Parent = [], Created = 1, ContainerConfig = ''A'',
      History = [\<lparr>h_Created = 1, CreatedBy = ''A'', EmptyLayer = False\<rparr>], DiffIDs = []\<rparr>"

definition twoStepCache :: "string daemonImageCacheForBuild" where
  "twoStepCache =
     \<lparr>cacheFromImages = Some [(''I'', twoStepImage)],
      cacheFromImageHistories =
        Some [(''I'', [\<lparr>sourceLayerID = DigestSha256EmptyTar, cmd = ''A'',
                          resultingLayerID = ''L1'', createdAt = 1\<rparr>,
                        \<lparr>sourceLayerID = ''L1'', cmd = ''B'',
                          resultingLayerID = ''L2'', createdAt = 2\<rparr>])],
      daemon = pulledOnly\<rparr>"

definition missResponse :: nextCachedLayerResponse where
  "missResponse = \<lparr>nextLayerID = [], resp_createdAt = zeroTime, cachedFrom = []\<rparr>"

section \<open>Properties of makeHistoryWithSource\<close>

lemma layerAt_ok:
  "- 1 \<le> li \<Longrightarrow> li < int (length ds) \<Longrightarrow>
   layerAt ds li = Inr (if li = - 1 then DigestSha256EmptyTar else ds ! nat li)"
  by (simp add: layerAt_def index_def)

lemma layerAt_end:
  "layerAt ds (int (length ds)) = Inl (Panic (IndexOutOfRange (int (length ds)) (length ds)))"
  by (simp add: layerAt_def index_def)

text \<open>
  What a successful run of the loop returns, from any starting \<open>layerIndex\<close>: one step
  per entry, and each step starts from the layer the previous one ended on.
\<close>

lemma makeHistoryLoop_shape:
  "makeHistoryLoop ds li hs = Inr steps \<Longrightarrow>
     length steps = length hs \<and>
     map cmd steps = map CreatedBy hs \<and>
     map createdAt steps = map h_Created hs \<and>
     (steps \<noteq> [] \<longrightarrow> layerAt ds li = Inr (sourceLayerID (hd steps))) \<and>
     (\<forall>i. Suc i < length steps \<longrightarrow>
        sourceLayerID (steps ! Suc i) = resultingLayerID (steps ! i))"
proof (induction hs arbitrary: li steps)
  case Nil
  then show ?case by simp
next
  case (Cons h hs)
  define li' where "li' = (if \<not> EmptyLayer h then li + 1 else li)"
  from Cons.prems obtain src res rest where
    src: "layerAt ds li = Inr src" and
    res: "layerAt ds li' = Inr res" and
    rest: "makeHistoryLoop ds li' hs = Inr rest" and
    steps: "steps = \<lparr>sourceLayerID = src, cmd = CreatedBy h,
                     resultingLayerID = res, createdAt = h_Created h\<rparr> # rest"
    by (auto simp: li'_def Let_def split: sum.splits if_splits)
  note IH = Cons.IH [OF rest]
  have chain: "sourceLayerID (steps ! Suc i) = resultingLayerID (steps ! i)"
    if "Suc i < length steps" for i
  proof (cases i)
    case 0
    with that have "rest \<noteq> []" by (auto simp: steps)
    with IH res have "sourceLayerID (hd rest) = res" by simp
    with 0 \<open>rest \<noteq> []\<close> show ?thesis by (simp add: steps hd_conv_nth)
  next
    case (Suc j)
    with that IH show ?thesis by (simp add: steps)
  qed
  from IH src chain show ?case by (simp add: steps)
qed

text \<open>
  A run that needs more layers than \<open>DiffIDs\<close> holds ends in the panic of the index
  expression, at the index just past the end.
\<close>

lemma makeHistoryLoop_overrun:
  "- 1 \<le> li \<Longrightarrow> li < int (length ds) \<Longrightarrow> int (length ds) < li + 1 + int (producing hs) \<Longrightarrow>
   makeHistoryLoop ds li hs = Inl (Panic (IndexOutOfRange (int (length ds)) (length ds)))"
proof (induction hs arbitrary: li)
  case Nil
  then show ?case by (simp add: producing_def)
next
  case (Cons h hs)
  show ?case
  proof (cases "EmptyLayer h")
    case True
    with Cons.prems have "int (length ds) < li + 1 + int (producing hs)"
      by (simp add: producing_def)
    from Cons.IH [OF Cons.prems(1,2) this] True Cons.prems(1,2) show ?thesis
      by (simp add: layerAt_ok)
  next
    case False
    show ?thesis
    proof (cases "li + 1 = int (length ds)")
      case True
      with False Cons.prems(1,2) layerAt_end [of ds] show ?thesis
        by (simp add: layerAt_ok)
    next
      case ne: False
      with Cons.prems have lt: "li + 1 < int (length ds)" and ge: "- 1 \<le> li + 1"
        by simp_all
      from False Cons.prems have "int (length ds) < (li + 1) + 1 + int (producing hs)"
        by (simp add: producing_def)
      from Cons.IH [OF ge lt this] False Cons.prems(1,2) lt show ?thesis
        by (simp add: layerAt_ok)
    qed
  qed
qed

text \<open>
  A run that needs no more layers than \<open>DiffIDs\<close> holds returns.
\<close>

lemma makeHistoryLoop_ok:
  "- 1 \<le> li \<Longrightarrow> li + 1 + int (producing hs) \<le> int (length ds) \<Longrightarrow>
   \<exists>steps. makeHistoryLoop ds li hs = Inr steps"
proof (induction hs arbitrary: li)
  case Nil
  then show ?case by simp
next
  case (Cons h hs)
  define li' where "li' = (if \<not> EmptyLayer h then li + 1 else li)"
  from Cons.prems have b: "- 1 \<le> li'" "li' + 1 + int (producing hs) \<le> int (length ds)"
    by (auto simp: li'_def producing_def)
  from Cons.prems have lt: "li < int (length ds)"
    by simp
  from b have lt': "li' < int (length ds)"
    by simp
  from Cons.IH [OF b] obtain rest where rest: "makeHistoryLoop ds li' hs = Inr rest"
    by blast
  show ?case
    using rest layerAt_ok [OF Cons.prems(1) lt] layerAt_ok [OF b(1) lt']
    by (simp add: li'_def [symmetric] Let_def)
qed

text \<open>
  C5. For the history \<open>[A, B]\<close> in which only \<open>B\<close> produces a layer and the layer
  list \<open>[L1]\<close>, the derived steps are \<open>(EMPTY, A, EMPTY)\<close> and \<open>(EMPTY, B, L1)\<close>.
  In general, for an image whose layer-producing entries are covered by its layer list,
  \<^verbatim>\<open>makeHistoryWithSource\<close> returns one step per history entry, in the same order
  (same commands, same creation times); the source of the first step is the empty-layer
  digest and the source of every later step is the result of the step before it.
\<close>

theorem makeHistoryWithSource_steps:
  "makeHistoryWithSource
     \<lparr>computedID = i, Parent = p, Created = t, ContainerConfig = c,
      History = [\<lparr>h_Created = tA, CreatedBy = ''A'', EmptyLayer = True\<rparr>,
                 \<lparr>h_Created = tB, CreatedBy = ''B'', EmptyLayer = False\<rparr>],
      DiffIDs = [L1]\<rparr>
   = Inr [\<lparr>sourceLayerID = DigestSha256EmptyTar, cmd = ''A'',
            resultingLayerID = DigestSha256EmptyTar, createdAt = tA\<rparr>,
          \<lparr>sourceLayerID = DigestSha256EmptyTar, cmd = ''B'',
            resultingLayerID = L1, createdAt = tB\<rparr>]
   \<and> (producing (History img) \<le> length (DiffIDs img) \<longrightarrow>
        (\<exists>steps. makeHistoryWithSource img = Inr steps \<and>
           length steps = length (History img) \<and>
           map cmd steps = map CreatedBy (History img) \<and>
           map createdAt steps = map h_Created (History img) \<and>
           (\<forall>i<length steps.
              sourceLayerID (steps ! i) =
                (if i = 0 then DigestSha256EmptyTar else resultingLayerID (steps ! (i - 1))))))"
proof (intro conjI impI)
  show "makeHistoryWithSource
     \<lparr>computedID = i, Parent = p, Created = t, ContainerConfig = c,
      History = [\<lparr>h_Created = tA, CreatedBy = ''A'', EmptyLayer = True\<rparr>,
                 \<lparr>h_Created = tB, CreatedBy = ''B'', EmptyLayer = False\<rparr>],
      DiffIDs = [L1]\<rparr>
   = Inr [\<lparr>sourceLayerID = DigestSha256EmptyTar, cmd = ''A'',
            resultingLayerID = DigestSha256EmptyTar, createdAt = tA\<rparr>,
          \<lparr>sourceLayerID = DigestSha256EmptyTar, cmd = ''B'',
            resultingLayerID = L1, createdAt = tB\<rparr>]"
    by (simp add: makeHistoryWithSource_def layerAt_def index_def)
next
  assume wf: "producing (History img) \<le> length (DiffIDs img)"
  then obtain steps where steps: "makeHistoryLoop (DiffIDs img) (- 1) (History img) = Inr steps"
    using makeHistoryLoop_ok [of "- 1" "History img" "DiffIDs img"] by auto
  note shape = makeHistoryLoop_shape [OF steps]
  have src: "sourceLayerID (steps ! i) =
        (if i = 0 then DigestSha256EmptyTar else resultingLayerID (steps ! (i - 1)))"
    if "i < length steps" for i
  proof (cases i)
    case 0
    with that have "steps \<noteq> []" by auto
    with shape have "sourceLayerID (hd steps) = DigestSha256EmptyTar"
      by (simp add: layerAt_def)
    with 0 \<open>steps \<noteq> []\<close> show ?thesis by (simp add: hd_conv_nth)
  next
    case (Suc j)
    with that shape show ?thesis by simp
  qed
  from steps shape src show "\<exists>steps. makeHistoryWithSource img = Inr steps \<and>
           length steps = length (History img) \<and>
           map cmd steps = map CreatedBy (History img) \<and>
           map createdAt steps = map h_Created (History img) \<and>
           (\<forall>i<length steps.
              sourceLayerID (steps ! i) =
                (if i = 0 then DigestSha256EmptyTar else resultingLayerID (steps ! (i - 1))))"
    by (simp add: makeHistoryWithSource_def)
qed

text \<open>
  The general statement applied to the image of the example: its history is covered
  by its layers, so the steps exist and have the stated shape.
\<close>

theorem makeHistoryWithSource_steps_witness:
  "producing (History exampleImage) \<le> length (DiffIDs exampleImage) \<and>
   (\<exists>steps. makeHistoryWithSource exampleImage = Inr steps \<and>
      length steps = 2 \<and> map cmd steps = [''A'', ''B''] \<and>
      sourceLayerID (steps ! 1) = resultingLayerID (steps ! 0))"
proof -
  have wf: "producing (History exampleImage) \<le> length (DiffIDs exampleImage)"
    by (simp add: exampleImage_def exampleHistory_def producing_def)
  from makeHistoryWithSource_steps
         [of "''I''" "[]" 2 "''B''" 1 2 "''L1''" exampleImage, THEN conjunct2, rule_format, OF wf]
  obtain steps where "makeHistoryWithSource exampleImage = Inr steps"
     "length steps = length (History exampleImage)"
     "map cmd steps = map CreatedBy (History exampleImage)"
     "\<forall>i<length steps. sourceLayerID (steps ! i) =
                (if i = 0 then DigestSha256EmptyTar else resultingLayerID (steps ! (i - 1)))"
    by blast
  with wf show ?thesis
    by (auto simp: exampleImage_def exampleHistory_def)
qed

text \<open>
  C6, as the code has it. \<^verbatim>\<open>makeHistoryWithSource\<close> has no error result. For an image
  whose layer-producing history entries outnumber its layer IDs it derives no steps: the
  index expression \<^verbatim>\<open>image.RootFS.DiffIDs[layerIndex]\<close> panics with index
  \<open>len(DiffIDs)\<close> out of range.
\<close>

theorem makeHistoryWithSource_corrupt:
  "length (DiffIDs img) < producing (History img) \<Longrightarrow>
   makeHistoryWithSource img =
     Inl (Panic (IndexOutOfRange (int (length (DiffIDs img))) (length (DiffIDs img))))"
  unfolding makeHistoryWithSource_def
  by (rule makeHistoryLoop_overrun) simp_all

text \<open>
  One layer-producing entry and no layer ID: the hypothesis holds and the panic is at
  index 0 of a slice of length 0.
\<close>

theorem makeHistoryWithSource_corrupt_witness:
  "length (DiffIDs corruptImage) < producing (History corruptImage) \<and>
   makeHistoryWithSource corruptImage = Inl (Panic (IndexOutOfRange 0 0))"
proof -
  have h: "length (DiffIDs corruptImage) < producing (History corruptImage)"
    by (simp add: corruptImage_def producing_def)
  from makeHistoryWithSource_corrupt [OF h] h show ?thesis
    by (simp add: corruptImage_def)
qed

text \<open>
  C6 as stated fails on that image: the outcome is a runtime panic, not a returned
  error value.
\<close>

theorem makeHistoryWithSource_corrupt_counterexample:
  "makeHistoryWithSource corruptImage = Inl (Panic (IndexOutOfRange 0 0)) \<and>
   \<not> is_error_return (makeHistoryWithSource corruptImage)"
  by (simp add: makeHistoryWithSource_def corruptImage_def layerAt_def index_def
      is_error_return_def)


subsection \<open>GetCachedImage\<close>

lemma lookups_Nil: "lookups d [] = []"
  by (simp add: lookups_def)

lemma lookups_Cons:
  "imageStore_Get d i = Inr img \<Longrightarrow> lookups d (i # ids) = img # lookups d ids"
  by (simp add: lookups_def)

text \<open>
  The loop of \<^verbatim>\<open>getMatch\<close> entered with a match \<open>m\<close> in hand: the result is the
  first of the newest images among \<open>m\<close> and the configuration-equal siblings still to
  come.
\<close>

lemma getMatch_Some:
  "allFound d ids \<Longrightarrow>
   \<exists>r. getMatch d cfg (Some m) ids = Inr (Some r) \<and>
       r \<in> set (m # filter (\<lambda>img. Compare d (ContainerConfig img) cfg) (lookups d ids)) \<and>
       (\<forall>c \<in> set (m # filter (\<lambda>img. Compare d (ContainerConfig img) cfg) (lookups d ids)).
          Created c \<le> Created r) \<and>
       find (\<lambda>c. Created c = Created r)
         (m # filter (\<lambda>img. Compare d (ContainerConfig img) cfg) (lookups d ids)) = Some r"
proof (induction ids arbitrary: m)
  case Nil
  then show ?case by (simp add: lookups_Nil)
next
  case (Cons i ids)
  from Cons.prems obtain img where img: "imageStore_Get d i = Inr img" and rest: "allFound d ids"
    by (auto split: sum.splits)
  let ?cs = "filter (\<lambda>img. Compare d (ContainerConfig img) cfg) (lookups d ids)"
  show ?case
  proof (cases "Compare d (ContainerConfig img) cfg")
    case False
    with Cons.IH [OF rest, of m] img show ?thesis
      by (simp add: lookups_Cons)
  next
    case True
    show ?thesis
    proof (cases "Created m < Created img")
      case newer: True
      from Cons.IH [OF rest, of img] obtain r where
        r: "getMatch d cfg (Some img) ids = Inr (Some r)" "r \<in> set (img # ?cs)"
           "\<forall>c \<in> set (img # ?cs). Created c \<le> Created r"
           "find (\<lambda>c. Created c = Created r) (img # ?cs) = Some r"
        by blast
      from r(3) newer have "Created m < Created r" by auto
      with r True newer img show ?thesis
        by (simp add: lookups_Cons)
    next
      case older: False
      from Cons.IH [OF rest, of m] obtain r where
        r: "getMatch d cfg (Some m) ids = Inr (Some r)" "r \<in> set (m # ?cs)"
           "\<forall>c \<in> set (m # ?cs). Created c \<le> Created r"
           "find (\<lambda>c. Created c = Created r) (m # ?cs) = Some r"
        by blast
      from r(3) older have le: "Created img \<le> Created r" "Created m \<le> Created r" by auto
      show ?thesis
      proof (cases "Created m = Created r")
        case True
        with r \<open>Compare d (ContainerConfig img) cfg\<close> older img le show ?thesis
          by (auto simp: lookups_Cons)
      next
        case False
        with le older have "Created img \<noteq> Created r" by simp
        with False r \<open>Compare d (ContainerConfig img) cfg\<close> older img le show ?thesis
          by (auto simp: lookups_Cons)
      qed
    qed
  qed
qed

lemma getMatch_None:
  "allFound d ids \<Longrightarrow>
   \<exists>r. getMatch d cfg None ids = Inr r \<and>
     (case filter (\<lambda>img. Compare d (ContainerConfig img) cfg) (lookups d ids) of
        [] \<Rightarrow> r = None
      | c # cs \<Rightarrow> (\<exists>m. r = Some m \<and> m \<in> set (c # cs) \<and>
           (\<forall>x \<in> set (c # cs). Created x \<le> Created m) \<and>
           find (\<lambda>x. Created x = Created m) (c # cs) = Some m))"
proof (induction ids)
  case Nil
  then show ?case by (simp add: lookups_Nil)
next
  case (Cons i ids)
  from Cons.prems obtain img where img: "imageStore_Get d i = Inr img" and rest: "allFound d ids"
    by (auto split: sum.splits)
  show ?case
  proof (cases "Compare d (ContainerConfig img) cfg")
    case False
    with Cons.IH [OF rest] img show ?thesis
      by (simp add: lookups_Cons)
  next
    case True
    let ?cs = "filter (\<lambda>img. Compare d (ContainerConfig img) cfg) (lookups d ids)"
    from getMatch_Some [OF rest, of cfg img] obtain r where
      r: "getMatch d cfg (Some img) ids = Inr (Some r)" "r \<in> set (img # ?cs)"
         "\<forall>c \<in> set (img # ?cs). Created c \<le> Created r"
         "find (\<lambda>c. Created c = Created r) (img # ?cs) = Some r"
      by blast
    have cs: "filter (\<lambda>img. Compare d (ContainerConfig img) cfg) (lookups d (i # ids)) = img # ?cs"
      using True img by (simp add: lookups_Cons)
    have run: "getMatch d cfg None (i # ids) = Inr (Some r)"
      using True img r(1) by simp
    show ?thesis
      unfolding cs run using r(2,3,4) by (intro exI [of _ "Some r"]) simp
  qed
qed

text \<open>
  C7, as the code has it. When every sibling is found in the store,
  \<^verbatim>\<open>GetCachedImage\<close> returns without error; the result is nil when no sibling has
  a configuration equal to the query, and otherwise it is the sibling at some position
  \<open>k\<close> of the configuration-equal siblings (listed in the order of enumeration) whose
  creation time is greatest and strictly greater than that of every earlier one: among
  the newest, the first enumerated.
\<close>

theorem GetCachedImage_newest:
  assumes found: "allFound d (siblingsOf d imgID)"
  shows "\<exists>r. GetCachedImage d imgID cfg = Inr r \<and>
           (candidates d imgID cfg = [] \<longrightarrow> r = None) \<and>
           (candidates d imgID cfg \<noteq> [] \<longrightarrow>
              (\<exists>k<length (candidates d imgID cfg).
                 r = Some (candidates d imgID cfg ! k) \<and>
                 (\<forall>j<length (candidates d imgID cfg).
                    Created (candidates d imgID cfg ! j) \<le> Created (candidates d imgID cfg ! k)) \<and>
                 (\<forall>j<k.
                    Created (candidates d imgID cfg ! j) < Created (candidates d imgID cfg ! k))))"
proof -
  let ?cs = "candidates d imgID cfg"
  from getMatch_None [OF found, of cfg] obtain r where
    r: "GetCachedImage d imgID cfg = Inr r" and
    sel: "(case ?cs of [] \<Rightarrow> r = None
          | c # cs \<Rightarrow> (\<exists>m. r = Some m \<and> m \<in> set (c # cs) \<and>
              (\<forall>x \<in> set (c # cs). Created x \<le> Created m) \<and>
              find (\<lambda>x. Created x = Created m) (c # cs) = Some m))"
    by (auto simp: GetCachedImage_def candidates_def)
  show ?thesis
  proof (cases ?cs)
    case Nil
    with r sel show ?thesis by simp
  next
    case (Cons c cs)
    with sel obtain m where m: "r = Some m" "\<forall>x \<in> set ?cs. Created x \<le> Created m"
      "find (\<lambda>x. Created x = Created m) ?cs = Some m"
      by auto
    from m(3) obtain k where k: "k < length ?cs" "m = ?cs ! k"
      "\<forall>j<k. Created (?cs ! j) \<noteq> Created m"
      by (auto simp: find_Some_iff)
    have "Created (?cs ! j) < Created (?cs ! k)" if "j < k" for j
    proof -
      from that k(1) have "?cs ! j \<in> set ?cs" by simp
      with m(2) have "Created (?cs ! j) \<le> Created m" by blast
      with k(3) that k(2) show ?thesis by fastforce
    qed
    moreover have "Created (?cs ! j) \<le> Created (?cs ! k)" if "j < length ?cs" for j
      using m(2) that k(2) by simp
    ultimately show ?thesis using r m(1) k(1,2) Cons by auto
  qed
qed


text \<open>
  Two configuration-equal children of \<open>p\<close>, created at 1 and at 2: the theorem
  leaves only the child created at 2.
\<close>

theorem GetCachedImage_newest_witness:
  "allFound twoChildren (siblingsOf twoChildren ''p'') \<and>
   candidates twoChildren ''p'' ''cfg'' = [childOf ''a'' ''p'' 1, childOf ''b'' ''p'' 2] \<and>
   GetCachedImage twoChildren ''p'' ''cfg'' = Inr (Some (childOf ''b'' ''p'' 2))"
proof -
  have found: "allFound twoChildren (siblingsOf twoChildren ''p'')"
    by (simp add: siblingsOf_def twoChildren_def fixtureDaemon_def storeGet_def)
  have cands: "candidates twoChildren ''p'' ''cfg'' =
      [childOf ''a'' ''p'' 1, childOf ''b'' ''p'' 2]"
    by (simp add: candidates_def lookups_def siblingsOf_def twoChildren_def fixtureDaemon_def
        storeGet_def childOf_def)
  from GetCachedImage_newest [OF found, of "''cfg''"] obtain r k where
    r: "GetCachedImage twoChildren ''p'' ''cfg'' = Inr r" and
    k: "k < 2" "r = Some ([childOf ''a'' ''p'' 1, childOf ''b'' ''p'' 2] ! k)" and
    mx: "\<forall>j<2. Created ([childOf ''a'' ''p'' 1, childOf ''b'' ''p'' 2] ! j)
            \<le> Created ([childOf ''a'' ''p'' 1, childOf ''b'' ''p'' 2] ! k)"
    unfolding cands by auto
  from mx have "Created (childOf ''b'' ''p'' 2)
      \<le> Created ([childOf ''a'' ''p'' 1, childOf ''b'' ''p'' 2] ! k)"
    by (auto dest: spec [of _ 1])
  with k(1) have "k = 1"
    by (cases k) (simp_all add: childOf_def)
  with r k(2) found cands show ?thesis by simp
qed

text \<open>
  C7 as stated fails on a tie. For \<^verbatim>\<open>FROM scratch\<close> the siblings are enumerated
  by a \<^verbatim>\<open>range\<close> over a Go map; the same two entries visited in the two possible
  orders give two different results, so no fixed order (such as the lexicographic order
  of IDs) decides the tie.
\<close>

theorem GetCachedImage_ties_counterexample:
  "GetCachedImage
     (fixtureDaemon [(''a'', childOf ''a'' [] 5), (''b'', childOf ''b'' [] 5)] (\<lambda>i. []))
     [] ''cfg'' = Inr (Some (childOf ''a'' [] 5)) \<and>
   GetCachedImage
     (fixtureDaemon [(''b'', childOf ''b'' [] 5), (''a'', childOf ''a'' [] 5)] (\<lambda>i. []))
     [] ''cfg'' = Inr (Some (childOf ''b'' [] 5)) \<and>
   set [(''a'', childOf ''a'' [] 5), (''b'', childOf ''b'' [] 5)] =
   set [(''b'', childOf ''b'' [] 5), (''a'', childOf ''a'' [] 5)] \<and>
   childOf ''a'' [] 5 \<noteq> childOf ''b'' [] 5"
  by (auto simp: GetCachedImage_def siblingsOf_def fixtureDaemon_def storeGet_def childOf_def)


subsection \<open>The comparison loop and the search coroutine\<close>

declare matchLoop.simps [simp del]

text \<open>
  The comparison loop from index \<open>i\<close> on, for lists of one length: it breaks with
  \<open>False\<close> at the first difference, and when there is none it reads index
  \<open>len\<close> and panics. It never ends with \<open>True\<close>.
\<close>

lemma matchLoop_drop:
  "i \<le> length prev \<Longrightarrow> length prev = length req \<Longrightarrow>
   matchLoop prev req i =
     (if drop i prev = drop i req
      then Inl (Panic (IndexOutOfRange (int (length prev)) (length prev)))
      else Inr False)"
proof (induction prev req i rule: matchLoop.induct)
  case (1 prev req i)
  show ?case
  proof (cases "i = length prev")
    case True
    with "1.prems" show ?thesis
      by (subst matchLoop.simps) (simp add: index_def)
  next
    case False
    with "1.prems" have lt: "i < length prev" "i < length req" by simp_all
    then have ix: "index prev (int i) = Inr (prev ! i)" "index req (int i) = Inr (req ! i)"
      by (simp_all add: index_def)
    have dr: "drop i prev = prev ! i # drop (Suc i) prev" "drop i req = req ! i # drop (Suc i) req"
      using lt by (simp_all add: Cons_nth_drop_Suc)
    show ?thesis
    proof (cases "prev ! i = req ! i")
      case ne: False
      with ix dr "1.prems" show ?thesis
        by (subst matchLoop.simps) simp
    next
      case True
      from lt "1.prems" have "Suc i \<le> length prev" by simp
      with "1.IH" [OF "1.prems"(1) ix(1) ix(2)] True "1.prems"(2)
      have "matchLoop prev req (i + 1) =
         (if drop (i + 1) prev = drop (i + 1) req
          then Inl (Panic (IndexOutOfRange (int (length prev)) (length prev)))
          else Inr False)"
        by simp
      with ix dr True "1.prems" show ?thesis
        by (subst matchLoop.simps) simp
    qed
  qed
qed

lemma matchesLayerIDs_eq:
  "matchesLayerIDs prev req =
     (if prev = req then Inl (Panic (IndexOutOfRange (int (length prev)) (length prev)))
      else Inr False)"
  using matchLoop_drop [of 0 prev req]
  by (auto simp: matchesLayerIDs_def)

text \<open>
  One iteration of the coroutine. The list of previous layers is empty at the start and
  \<^verbatim>\<open>DiffIDs[0:len(prevStepCachedLayers)]\<close> keeps it empty, so a request either carries
  no preceding layers, and the comparison panics, or carries some, and is answered with
  a miss.
\<close>

lemma searchLoop_step:
  "searchLoop ds name (h # hs) [] (req # reqs) =
     (if prevLayerIDs req = [] then ([], Some (Panic (IndexOutOfRange 0 0)))
      else (missResponse # fst (searchLoop ds name hs [] reqs),
            snd (searchLoop ds name hs [] reqs)))"
  by (simp add: slice0_def matchesLayerIDs_eq missResponse_def split: prod.splits)

lemma searchLoop_closed: "searchLoop ds name (h # hs) [] [] = ([], None)"
  by (simp add: slice0_def)

lemma searchLoop_done: "searchLoop ds name [] prev reqs = ([], None)"
  by simp

declare searchLoop.simps [simp del]

text \<open>
  Hence no response ever names a layer.
\<close>

lemma searchLoop_never_hits:
  "r \<in> set (fst (searchLoop ds name hs [] reqs)) \<Longrightarrow> nextLayerID r = []"
proof (induction hs arbitrary: reqs)
  case Nil
  then show ?case by (simp add: searchLoop_done)
next
  case (Cons h hs)
  show ?case
  proof (cases reqs)
    case Nil
    with Cons.prems show ?thesis by (simp add: searchLoop_closed)
  next
    case (Cons req reqs')
    with Cons.prems Cons.IH [of reqs'] show ?thesis
      by (auto simp: searchLoop_step missResponse_def split: if_splits)
  qed
qed

lemma cacheSearchCoroutine_never_hits:
  "r \<in> set (fst (cacheSearchCoroutine img name reqs)) \<Longrightarrow> nextLayerID r = []"
  by (auto simp: cacheSearchCoroutine_def dest: searchLoop_never_hits split: sum.splits)

text \<open>
  After a direct miss \<^verbatim>\<open>GetCachedImageOnBuild\<close> returns no ID: every remaining path
  is an error, a panic or the end of the body.
\<close>

lemma GetCachedImageOnBuild_miss:
  "GetCachedImage (daemon cache) imgID cfg = Inr None \<Longrightarrow>
   \<exists>f. GetCachedImageOnBuild cache imgID cfg = Inl f"
  by (simp add: GetCachedImageOnBuild_def split: sum.splits)

text \<open>
  With the image map nil, the loop of \<^verbatim>\<open>MakeImageCacheForBuild\<close> panics as soon as
  a name resolves, and otherwise leaves the cache as it was.
\<close>

lemma cacheFromLoop_nil:
  "cacheFromImages cache = None \<Longrightarrow>
   cacheFromLoop cache names =
     (if list_ex (\<lambda>n. case GetImage (daemon cache) n of Inl f \<Rightarrow> False | Inr img \<Rightarrow> True) names
      then Inl (Panic NilMapAssignment) else Inr cache)"
  by (induction names) (auto simp: mapassign_def split: sum.splits)

lemma twoStepImage_history:
  "makeHistoryWithSource twoStepImage =
     Inr [\<lparr>sourceLayerID = DigestSha256EmptyTar, cmd = ''A'',
            resultingLayerID = ''L1'', createdAt = 1\<rparr>,
          \<lparr>sourceLayerID = ''L1'', cmd = ''B'',
            resultingLayerID = ''L2'', createdAt = 2\<rparr>]"
  by (simp add: makeHistoryWithSource_def twoStepImage_def layerAt_def index_def)

lemma GetImage_pulledOnly:
  "GetImage pulledOnly [] = Inl (Error (CollaboratorError ''invalid reference format''))"
  "GetImage pulledOnly ''I'' = Inr twoStepImage"
  "GetImage pulledOnly ''missing'' = Inl (Error (ErrImageDoesNotExist ''missing''))"
  by (simp_all add: GetImage_def GetImageID_def pulledOnly_def fixtureDaemon_def parseAsID_def
      storeGet_def)

subsection \<open>The cache for one build\<close>

text \<open>
  C4. When \<^verbatim>\<open>GetCachedImage\<close> finds an image, \<^verbatim>\<open>GetCachedImageOnBuild\<close>
  returns the ID of that image, whatever the cache-from maps hold: nothing else is
  consulted.
\<close>

theorem direct_hit_returned:
  "GetCachedImage d imgID cfg = Inr (Some img) \<Longrightarrow>
   GetCachedImageOnBuild \<lparr>cacheFromImages = cf, cacheFromImageHistories = ch, daemon = d\<rparr>
     imgID cfg = Inr (computedID img)"
  by (simp add: GetCachedImageOnBuild_def)

lemma twoChildren_newest:
  "GetCachedImage twoChildren ''p'' ''cfg'' = Inr (Some (childOf ''b'' ''p'' 2))"
  by (simp add: GetCachedImage_def siblingsOf_def twoChildren_def fixtureDaemon_def
      storeGet_def childOf_def)

text \<open>
  A parent with two matching children and a cache that also holds a cache-from image:
  the direct match, the newer child, is the answer.
\<close>

theorem direct_hit_returned_witness:
  "GetCachedImage twoChildren ''p'' ''cfg'' = Inr (Some (childOf ''b'' ''p'' 2)) \<and>
   GetCachedImageOnBuild
     \<lparr>cacheFromImages = cacheFromImages twoStepCache,
      cacheFromImageHistories = cacheFromImageHistories twoStepCache,
      daemon = twoChildren\<rparr> ''p'' ''cfg'' = Inr ''b''"
  using direct_hit_returned [OF twoChildren_newest] twoChildren_newest
  by (simp add: childOf_def)

text \<open>
  C1, evaluated. The image \<open>twoStepImage\<close> is the only image in the store and the
  only cache-from image, and its own two instructions are replayed. At the first step
  \<^verbatim>\<open>GetCachedImageOnBuild\<close> finds no direct match and returns the error of looking
  up the empty parent ID, not a match; and the search coroutine of the image, asked for
  its own first command with no preceding layers, panics in the comparison loop.
\<close>

theorem replay_own_history_fails:
  "GetCachedImageOnBuild twoStepCache [] ''A'' =
     Inl (Error (CollaboratorError ''invalid reference format'')) \<and>
   cacheSearchCoroutine twoStepImage ''I'' [\<lparr>nextCmd = ''A'', prevLayerIDs = []\<rparr>] =
     ([], Some (Panic (IndexOutOfRange 0 0)))"
proof
  have "GetCachedImage pulledOnly [] ''A'' = Inr None"
    by (simp add: GetCachedImage_def siblingsOf_def pulledOnly_def fixtureDaemon_def
        storeGet_def twoStepImage_def)
  then show "GetCachedImageOnBuild twoStepCache [] ''A'' =
     Inl (Error (CollaboratorError ''invalid reference format''))"
    by (simp add: GetCachedImageOnBuild_def twoStepCache_def GetImage_pulledOnly)
  show "cacheSearchCoroutine twoStepImage ''I'' [\<lparr>nextCmd = ''A'', prevLayerIDs = []\<rparr>] =
     ([], Some (Panic (IndexOutOfRange 0 0)))"
    by (simp add: cacheSearchCoroutine_def twoStepImage_history searchLoop_step searchLoop_done)
qed

text \<open>
  C2, evaluated. The first request has the right command and the wrong preceding layers,
  and is answered with a miss. The coroutine goes on to the next history entry; the
  second request, with no preceding layers, is not answered with a miss: the comparison
  loop panics.
\<close>

theorem mismatch_does_not_close:
  "cacheSearchCoroutine twoStepImage ''I''
     [\<lparr>nextCmd = ''A'', prevLayerIDs = [''L9'']\<rparr>, \<lparr>nextCmd = ''B'', prevLayerIDs = []\<rparr>] =
     ([missResponse], Some (Panic (IndexOutOfRange 0 0)))"
  by (simp add: cacheSearchCoroutine_def twoStepImage_history searchLoop_step searchLoop_done)

text \<open>
  C3, evaluated. The first request to the coroutine of \<open>exampleImage\<close> carries the
  command of the first step and the empty list of preceding layers, equal to the empty
  prefix: it is answered with no match but with a panic. With a different list of
  preceding layers it is answered with a miss.
\<close>

theorem matching_ask_panics:
  "cacheSearchCoroutine exampleImage ''I'' [\<lparr>nextCmd = ''A'', prevLayerIDs = []\<rparr>] =
     ([], Some (Panic (IndexOutOfRange 0 0))) \<and>
   cacheSearchCoroutine exampleImage ''I'' [\<lparr>nextCmd = ''A'', prevLayerIDs = [''L0'']\<rparr>] =
     ([missResponse], None)"
proof -
  have "\<exists>h hs. makeHistoryWithSource exampleImage = Inr (h # hs)"
    by (simp add: makeHistoryWithSource_def exampleImage_def exampleHistory_def layerAt_def
        index_def)
  then obtain h hs where "makeHistoryWithSource exampleImage = Inr (h # hs)"
    by blast
  then show ?thesis
    by (cases hs) (simp_all add: cacheSearchCoroutine_def searchLoop_step searchLoop_closed searchLoop_done)
qed

text \<open>
  C8, evaluated. With no direct match and no cache-from image, a query for an existing
  parent reaches the end of \<^verbatim>\<open>GetCachedImageOnBuild\<close> without a \<^verbatim>\<open>return\<close>,
  and a query for \<^verbatim>\<open>FROM scratch\<close> returns an error. No plugin is called on either
  path, and neither outcome is a miss without error.
\<close>

theorem miss_is_not_an_ordinary_miss:
  "GetCachedImageOnBuild
     \<lparr>cacheFromImages = None, cacheFromImageHistories = None, daemon = twoChildren\<rparr>
     ''b'' ''cfg'' = Inl MissingReturn \<and>
   GetCachedImageOnBuild
     \<lparr>cacheFromImages = None, cacheFromImageHistories = None, daemon = pulledOnly\<rparr>
     [] ''A'' = Inl (Error (CollaboratorError ''invalid reference format''))"
proof
  have miss: "GetCachedImage twoChildren ''b'' ''cfg'' = Inr None"
    by (simp add: GetCachedImage_def siblingsOf_def twoChildren_def fixtureDaemon_def)
  have img: "GetImage twoChildren ''b'' = Inr (childOf ''b'' ''p'' 2)"
    by (simp add: GetImage_def GetImageID_def twoChildren_def fixtureDaemon_def parseAsID_def
        storeGet_def)
  have hist: "makeHistoryWithSource (childOf ''b'' ''p'' 2) = Inr []"
    by (simp add: makeHistoryWithSource_def childOf_def)
  from miss img hist show "GetCachedImageOnBuild
     \<lparr>cacheFromImages = None, cacheFromImageHistories = None, daemon = twoChildren\<rparr>
     ''b'' ''cfg'' = Inl MissingReturn"
    by (simp add: GetCachedImageOnBuild_def)
  have "GetCachedImage pulledOnly [] ''A'' = Inr None"
    by (simp add: GetCachedImage_def siblingsOf_def pulledOnly_def fixtureDaemon_def
        storeGet_def twoStepImage_def)
  then show "GetCachedImageOnBuild
     \<lparr>cacheFromImages = None, cacheFromImageHistories = None, daemon = pulledOnly\<rparr>
     [] ''A'' = Inl (Error (CollaboratorError ''invalid reference format''))"
    by (simp add: GetCachedImageOnBuild_def GetImage_pulledOnly)
qed

text \<open>
  C9, evaluated. On two lists of equal length \<open>n\<close> that agree everywhere the loop
  reads index \<open>n\<close>: index 0 of two empty lists, index 1 of two one-element lists.
\<close>

theorem comparison_reads_past_end:
  "matchesLayerIDs [] [] = Inl (Panic (IndexOutOfRange 0 0)) \<and>
   matchesLayerIDs [''L1''] [''L1''] = Inl (Panic (IndexOutOfRange 1 1))"
  by (simp add: matchesLayerIDs_eq)

text \<open>
  C10, evaluated. With one name that resolves, alone or after a name that does not,
  \<^verbatim>\<open>MakeImageCacheForBuild\<close> panics at the first assignment: the map is nil.
\<close>

theorem MakeImageCacheForBuild_nil_map:
  "MakeImageCacheForBuild pulledOnly [''I''] = Inl (Panic NilMapAssignment) \<and>
   MakeImageCacheForBuild pulledOnly [''missing'', ''I''] = Inl (Panic NilMapAssignment)"
  by (simp add: MakeImageCacheForBuild_def mapassign_def GetImage_pulledOnly)

end
